theory Spec2Isabelle
  imports Complex_Main
begin

section \<open>Adaptive quality selector (usePerformanceMonitor)\<close>

text \<open>
  The device signals the hook reads: \<^verbatim>\<open>window.innerWidth\<close> (an integer number of CSS
  pixels), \<^verbatim>\<open>navigator.hardwareConcurrency\<close> (a count, or \<^verbatim>\<open>undefined\<close> where the browser
  does not report it) and \<^verbatim>\<open>navigator.connection?.effectiveType\<close> (a string, or
  \<^verbatim>\<open>undefined\<close> where \<^verbatim>\<open>navigator.connection\<close> is missing).
\<close>

record signals =
  innerWidth :: int
  hardwareConcurrency :: "nat option"
  effectiveType :: "string option"

text \<open>JavaScript's \<^verbatim>\<open>x < n\<close> on a possibly undefined number: \<^verbatim>\<open>undefined < 4\<close> is
  \<^verbatim>\<open>NaN < 4\<close>, which is false.\<close>

definition js_lt :: "nat option \<Rightarrow> nat \<Rightarrow> bool" where
  "js_lt x n = (case x of None \<Rightarrow> False | Some v \<Rightarrow> v < n)"

text \<open>The initialiser passed to \<^verbatim>\<open>useState\<close> (App.js, lines 9 to 16).\<close>

definition initialQuality :: "signals \<Rightarrow> string" where
  "initialQuality sig =
     (let mobile = innerWidth sig < 768;
          lowEnd = js_lt (hardwareConcurrency sig) 4;
          slowConnection = (effectiveType sig = Some ''slow-2g'' \<or> effectiveType sig = Some ''2g'')
      in if mobile \<or> lowEnd \<or> slowConnection then ''low''
         else if innerWidth sig < 1024 then ''medium''
         else ''high'')"

text \<open>
  The state of the hook: the published tier, whether the resize listener is installed,
  and whether the 100 ms timer set by the listener is pending.
\<close>

record monitor =
  quality :: string
  listening :: bool
  timerPending :: bool

datatype monitor_event =
    Resize
  | TimerFires signals
  | MonitorCleanup

definition monitor_mount :: "signals \<Rightarrow> monitor" where
  "monitor_mount sig = \<lparr> quality = initialQuality sig, listening = True, timerPending = False \<rparr>"

text \<open>The body of the timeout callback (App.js, lines 22 to 27), which sets the tier.\<close>

definition timeoutCallback :: "signals \<Rightarrow> monitor \<Rightarrow> monitor" where
  "timeoutCallback sig m =
     (let mobile = innerWidth sig < 768;
          lowEnd = js_lt (hardwareConcurrency sig) 4;
          slowConnection = (effectiveType sig = Some ''slow-2g'' \<or> effectiveType sig = Some ''2g'')
      in if mobile \<or> lowEnd \<or> slowConnection then m\<lparr>quality := ''low''\<rparr>
         else if innerWidth sig < 1024 then m\<lparr>quality := ''medium''\<rparr>
         else m\<lparr>quality := ''high''\<rparr>)"

text \<open>
  \<^verbatim>\<open>update\<close> clears the pending timer and sets a new one; the timer, when it fires, runs
  the callback once; the effect's cleanup removes the listener and clears the timer.
\<close>

fun monitor_step :: "monitor \<Rightarrow> monitor_event \<Rightarrow> monitor" where
  "monitor_step m Resize = (if listening m then m\<lparr>timerPending := True\<rparr> else m)"
| "monitor_step m (TimerFires sig) =
     (if timerPending m then timeoutCallback sig (m\<lparr>timerPending := False\<rparr>) else m)"
| "monitor_step m MonitorCleanup = m\<lparr>listening := False, timerPending := False\<rparr>"

text \<open>The tier in the words of the specification.\<close>

definition spec_quality :: "signals \<Rightarrow> string" where
  "spec_quality sig =
     (if innerWidth sig < 768
         \<or> (case hardwareConcurrency sig of Some n \<Rightarrow> n < 4 | None \<Rightarrow> False)
         \<or> effectiveType sig \<in> {Some ''2g'', Some ''slow-2g''}
      then ''low''
      else if 768 \<le> innerWidth sig \<and> innerWidth sig < 1024 then ''medium''
      else ''high'')"

section \<open>Scroll progress tracker (useScrollProgress)\<close>










section \<open>Waitlist endpoint (backend/index.js)\<close>

subsection \<open>Strings and the email pattern\<close>


















subsection \<open>Values, the validator and the handler\<close>
















section \<open>Animated scenes (App.js): the frame callbacks\<close>

text \<open>
  JavaScript numbers are modelled as real numbers. The properties of the scene objects
  that the frame callbacks write (rotations, scales, material opacities) live in a store
  indexed by the path the source writes them through; \<open>renderCalls\<close> counts the calls of
  \<^verbatim>\<open>renderer.render\<close> on the scene's renderer.
\<close>

record scene =
  props :: "string \<Rightarrow> real"
  renderCalls :: nat

text \<open>
  The closure variables of one run of a scene's effect: the liveness flag (\<^verbatim>\<open>mounted\<close>,
  \<^verbatim>\<open>isMounted\<close>), \<^verbatim>\<open>time\<close>, \<^verbatim>\<open>lastTime\<close>, whether a frame callback is pending
  with the browser (its handle is kept in \<^verbatim>\<open>animationFrame\<close> or \<^verbatim>\<open>animationId\<close>), and
  \<^verbatim>\<open>lastScrollProgress\<close> (the helix of frontend/src/App.js only).
\<close>

record loop_vars =
  mounted :: bool
  time :: real
  lastTime :: real
  frameRequested :: bool
  lastScrollProgress :: real

subsection \<open>Sphere\<close>

text \<open>
  The body of \<^verbatim>\<open>animate\<close> after its guard; the statements are the same in src/App.js
  (lines 159 to 174) and frontend/src/App.js (lines 208 to 234).
\<close>

definition sphereFrame :: "real \<Rightarrow> real \<Rightarrow> loop_vars \<Rightarrow> scene \<Rightarrow> loop_vars \<times> scene" where
  "sphereFrame scrollProgress currentTime v sc =
     (let v1 = v\<lparr>frameRequested := True\<rparr>;
          deltaTime = currentTime - lastTime v1
      in if deltaTime < 16 then (v1, sc)
         else
           let v2 = v1\<lparr>lastTime := currentTime, time := time v1 + 0.009\<rparr>;
               p = props sc;
               p1 = p(''sphere.rotation.y'' := p ''sphere.rotation.y'' + (0.004 + scrollProgress * 0.01));
               p2 = p1(''sphere.rotation.x'' := p1 ''sphere.rotation.x'' + (0.002 + scrollProgress * 0.003));
               p3 = p2(''particles.rotation.y'' := p2 ''particles.rotation.y'' - (0.001 + scrollProgress * 0.003));
               p4 = p3(''particles.rotation.x'' := p3 ''particles.rotation.x'' + sin (time v2 * 0.5) * 0.0008);
               sOpacity = max 0.2 (1 - scrollProgress * 0.8);
               p5 = p4(''material.opacity'' := sOpacity);
               p6 = p5(''edgesMaterial.opacity'' := sOpacity * 0.6);
               p7 = p6(''particlesMaterial.opacity'' := sOpacity * 0.45);
               scale = 1 + sin (time v2 * 2) * 0.05 * (1 - scrollProgress * 0.5);
               p8 = p7(''sphere.scale'' := scale)
           in (v2, sc\<lparr>props := p8, renderCalls := Suc (renderCalls sc)\<rparr>))"

text \<open>src/App.js: \<^verbatim>\<open>if (!mounted) return;\<close> and the body, on the objects of the closure.\<close>

definition sphereAnimate :: "real \<Rightarrow> real \<Rightarrow> loop_vars \<Rightarrow> scene \<Rightarrow> loop_vars \<times> scene" where
  "sphereAnimate scrollProgress currentTime v sc =
     (if \<not> mounted v then (v, sc) else sphereFrame scrollProgress currentTime v sc)"

text \<open>
  frontend/src/App.js: \<^verbatim>\<open>if (!isMounted || !sceneDataRef.current) return;\<close> and the body,
  on the objects \<^verbatim>\<open>sceneDataRef.current\<close> holds.
\<close>

definition sphereAnimate_frontend ::
  "real \<Rightarrow> real \<Rightarrow> loop_vars \<Rightarrow> scene option \<Rightarrow> loop_vars \<times> scene option" where
  "sphereAnimate_frontend scrollProgress currentTime v sceneData =
     (case sceneData of
        None \<Rightarrow> (v, None)
      | Some sc \<Rightarrow>
          if \<not> mounted v then (v, Some sc)
          else let (v', sc') = sphereFrame scrollProgress currentTime v sc in (v', Some sc'))"

subsection \<open>Helix\<close>

text \<open>
  src/App.js, \<^verbatim>\<open>DnaSceneComponent\<close>: \<^verbatim>\<open>animate\<close> declares no parameter, so the time stamp
  the browser passes is not read.
\<close>

definition dnaAnimate :: "real \<Rightarrow> real \<Rightarrow> loop_vars \<Rightarrow> scene \<Rightarrow> loop_vars \<times> scene" where
  "dnaAnimate scrollProgress currentTime v sc =
     (if \<not> mounted v then (v, sc)
      else
        let v1 = v\<lparr>frameRequested := True\<rparr>;
            v2 = v1\<lparr>time := time v1 + 0.011\<rparr>;
            p = props sc;
            p1 = p(''helixGroup.rotation.y'' := time v2 * 0.35 + 0.033 * scrollProgress);
            p2 = p1(''helixGroup.rotation.x'' := 0.32 * sin (time v2 * 0.32 + 0.15 * scrollProgress));
            pulse = 1.0 + 0.08 * sin (time v2 * 2.5);
            p3 = p2(''helixGroup.scale'' := pulse);
            p4 = p3(''particles.rotation.y'' := p3 ''particles.rotation.y'' + 0.003);
            p5 = p4(''mat1.opacity'' := 0.65 + 0.31 * scrollProgress);
            p6 = p5(''mat2.opacity'' := 0.62 + 0.33 * scrollProgress)
        in (v2, sc\<lparr>props := p6, renderCalls := Suc (renderCalls sc)\<rparr>))"

text \<open>frontend/src/App.js, \<^verbatim>\<open>DnaSceneComponent\<close> (lines 499 to 537).\<close>

definition dnaFrame_frontend :: "real \<Rightarrow> loop_vars \<Rightarrow> scene \<Rightarrow> loop_vars \<times> scene" where
  "dnaFrame_frontend scrollProgress v sc =
     (let v1 = v\<lparr>frameRequested := True\<rparr>;
          v2 = v1\<lparr>time := time v1 + 0.011\<rparr>;
          p = props sc;
          p1 = p(''helixGroup.rotation.y'' := time v2 * 0.35);
          p2 = p1(''helixGroup.rotation.x'' := 0.32 * sin (time v2 * 0.32));
          pulse = 1.0 + 0.08 * sin (time v2 * 2.5);
          p3 = p2(''helixGroup.scale'' := pulse);
          p4 = p3(''particles.rotation.y'' := p3 ''particles.rotation.y'' + 0.003)
      in if \<bar>lastScrollProgress v2 - scrollProgress\<bar> > 0.01
         then
           let p5 = p4(''mat1.opacity'' := 0.65 + 0.25 * scrollProgress);
               p6 = p5(''mat2.opacity'' := 0.62 + 0.28 * scrollProgress);
               p7 = p6(''particlesMaterial.opacity'' := 0.3 + 0.4 * scrollProgress);
               v3 = v2\<lparr>lastScrollProgress := scrollProgress\<rparr>
           in (v3, sc\<lparr>props := p7, renderCalls := Suc (renderCalls sc)\<rparr>)
         else (v2, sc\<lparr>props := p4, renderCalls := Suc (renderCalls sc)\<rparr>))"

definition dnaAnimate_frontend ::
  "real \<Rightarrow> real \<Rightarrow> loop_vars \<Rightarrow> scene option \<Rightarrow> loop_vars \<times> scene option" where
  "dnaAnimate_frontend scrollProgress currentTime v sceneData =
     (case sceneData of
        None \<Rightarrow> (v, None)
      | Some sc \<Rightarrow>
          if \<not> mounted v then (v, Some sc)
          else let (v', sc') = dnaFrame_frontend scrollProgress v sc in (v', Some sc'))"

text \<open>
  The object properties as the constructors set them. Only the helix of src/App.js
  reads the scroll progress here.
\<close>

definition sphereProps :: "string \<Rightarrow> real" where
  "sphereProps =
     (\<lambda>path. 0)(''sphere.scale'' := 1, ''material.opacity'' := 0.7,
                ''edgesMaterial.opacity'' := 0.38, ''particlesMaterial.opacity'' := 0.45)"

definition dnaProps :: "real \<Rightarrow> string \<Rightarrow> real" where
  "dnaProps scrollProgress =
     (\<lambda>path. 0)(''helixGroup.scale'' := 1, ''mat1.opacity'' := 0.7 + 0.2 * scrollProgress,
                ''mat2.opacity'' := 0.65 + 0.2 * scrollProgress,
                ''rungMat.opacity'' := 0.5 + 0.3 * scrollProgress,
                ''particlesMaterial.opacity'' := 0.13 + 0.5 * scrollProgress)"

definition dnaProps_frontend :: "string \<Rightarrow> real" where
  "dnaProps_frontend =
     (\<lambda>path. 0)(''helixGroup.scale'' := 1, ''mat1.opacity'' := 0.7, ''mat2.opacity'' := 0.65,
                ''rungMat.opacity'' := 0.5, ''particlesMaterial.opacity'' := 0.4)"

text \<open>The closure variables when a run of the effect starts.\<close>

definition newVars :: "real \<Rightarrow> loop_vars" where
  "newVars scrollProgress =
     \<lparr>mounted = True, time = 0, lastTime = 0, frameRequested = False,
      lastScrollProgress = scrollProgress\<rparr>"

text \<open>A helix of src/App.js as constructed at scroll progress \<open>s\<close>, before its first frame.\<close>

definition helixScene :: "real \<Rightarrow> scene" where
  "helixScene s = \<lparr>props = dnaProps s, renderCalls = 0\<rparr>"

text \<open>A sphere as constructed, before its first frame.\<close>

definition sphereScene :: scene where
  "sphereScene = \<lparr>props = sphereProps, renderCalls = 0\<rparr>"

section \<open>Animated scenes (App.js): the effect, construction and teardown\<close>

subsection \<open>State\<close>

text \<open>
  The two components, \<^verbatim>\<open>SphereGridScene\<close> and \<^verbatim>\<open>DnaSceneComponent\<close>. Their effects have
  the same shape in each file; they differ in the construction statements, the frame
  callback and the objects the teardown disposes.
\<close>

datatype scene_kind = SphereGrid | Dna

text \<open>
  Graphics objects are numbered in the order of their creation. The model tracks the
  objects that must be released: the renderer, the geometries and the materials.
\<close>

datatype kind = Renderer | Geometry | Material

datatype scene_error = ImportFailed | Thrown nat

datatype import_result = Loaded | ImportRejects

text \<open>
  One run of the effect, with the variables of its closure: the captured props, whether
  the promise of the async function has resolved and whether it resolved to the cleanup
  closure, the tracked objects it created (under the names of the source's constants),
  the properties of its scene objects, and the number of \<^verbatim>\<open>then\<close> callbacks registered
  on its promise that have not run yet (frontend/src/App.js only).
\<close>

record effect_run =
  vars :: loop_vars
  scrollProgressProp :: real
  qualityProp :: string
  settled :: bool
  returnsCleanup :: bool
  tracked :: "(string \<times> nat) list"
  objects :: scene
  reactions :: nat

text \<open>
  One mounted component: the runs of its effect so far (\<open>runs\<close> below \<open>runCount\<close>), the
  run whose cleanup React holds, whether \<^verbatim>\<open>mountRef.current\<close> is set, the canvases under
  the mount container (each named by its renderer), every tracked object created, every
  call of \<^verbatim>\<open>dispose\<close>, the state \<^verbatim>\<open>isLoaded\<close>, the console, the run whose objects
  \<^verbatim>\<open>sceneDataRef.current\<close> refers to (frontend/src/App.js only), and the runs whose resize
  listener is installed.
\<close>

record component =
  runs :: "nat \<Rightarrow> effect_run"
  runCount :: nat
  current :: "nat option"
  mountRef :: bool
  children :: "nat list"
  nextObject :: nat
  created :: "(nat \<times> kind) list"
  disposals :: "nat list"
  isLoaded :: bool
  console :: "scene_error list"
  sceneDataRef :: "nat option"
  resizeListeners :: "nat list"

definition idleRun :: effect_run where
  "idleRun =
     \<lparr>vars = (newVars 0)\<lparr>mounted := False\<rparr>, scrollProgressProp = 0, qualityProp = [],
      settled = False, returnsCleanup = False, tracked = [],
      objects = \<lparr>props = (\<lambda>path. 0), renderCalls = 0\<rparr>, reactions = 0\<rparr>"

definition unmounted :: component where
  "unmounted =
     \<lparr>runs = (\<lambda>i. idleRun), runCount = 0, current = None, mountRef = False, children = [],
      nextObject = 0, created = [], disposals = [], isLoaded = False, console = [],
      sceneDataRef = None, resizeListeners = []\<rparr>"

definition updRun :: "nat \<Rightarrow> (effect_run \<Rightarrow> effect_run) \<Rightarrow> component \<Rightarrow> component" where
  "updRun i f c = c\<lparr>runs := (runs c)(i := f (runs c i))\<rparr>"

definition updVars :: "nat \<Rightarrow> (loop_vars \<Rightarrow> loop_vars) \<Rightarrow> component \<Rightarrow> component" where
  "updVars i f c = updRun i (\<lambda>r. r\<lparr>vars := f (vars r)\<rparr>) c"

text \<open>The loading placeholder is rendered by \<^verbatim>\<open>{!isLoaded && <SceneLoadingFallback />}\<close>.\<close>

definition placeholderShown :: "component \<Rightarrow> bool" where
  "placeholderShown c = (\<not> isLoaded c)"

subsection \<open>Construction\<close>

text \<open>
  The statements between the guards and the start of the animation, in order. \<open>New\<close>
  creates a tracked object and binds it to a constant; \<open>AppendChild\<close> is
  \<^verbatim>\<open>appendChild(renderer.domElement)\<close>; \<open>Statement\<close> stands for statements that create
  nothing tracked (scene, camera, meshes, buffers, lights). Any of them may throw.
\<close>

datatype build_step = Statement | New kind string | AppendChild

definition sphereSteps :: "build_step list" where
  "sphereSteps =
     [Statement, Statement, New Renderer ''renderer'', Statement, AppendChild,
      New Geometry ''geometry'', New Material ''material'', Statement,
      New Geometry ''edgesGeometry'', New Material ''edgesMaterial'', Statement,
      New Geometry ''particlesGeometry'', Statement, New Material ''particlesMaterial'',
      Statement]"

text \<open>\<^verbatim>\<open>for (let i = 0; i < segments; i += 20)\<close>: one geometry and one material per rung.\<close>

function rungLoop :: "nat \<Rightarrow> nat \<Rightarrow> build_step list" where
  "rungLoop i segments =
     (if i < segments
      then [New Geometry ''rungGeo'', New Material ''rungMat'', Statement] @ rungLoop (i + 20) segments
      else [])"
  by pat_completeness auto
termination
  by (relation "measure (\<lambda>(i, segments). segments - i)") auto

declare rungLoop.simps [simp del]

definition dnaSteps :: "build_step list" where
  "dnaSteps =
     [Statement, Statement, New Renderer ''renderer'', Statement, AppendChild, Statement,
      New Geometry ''geo1'', New Geometry ''geo2'', New Material ''mat1'', New Material ''mat2'',
      Statement]
     @ rungLoop 0 120
     @ [Statement, New Geometry ''particlesGeometry'', Statement,
        New Material ''particlesMaterial'', Statement]"

fun steps :: "scene_kind \<Rightarrow> build_step list" where
  "steps SphereGrid = sphereSteps"
| "steps Dna = dnaSteps"

fun perform :: "nat \<Rightarrow> build_step \<Rightarrow> component \<Rightarrow> component" where
  "perform i Statement c = c"
| "perform i (New k name) c =
     (updRun i (\<lambda>r. r\<lparr>tracked := tracked r @ [(name, nextObject c)]\<rparr>) c)
       \<lparr>created := created c @ [(nextObject c, k)], nextObject := Suc (nextObject c)\<rparr>"
| "perform i AppendChild c =
     (case map_of (tracked (runs c i)) ''renderer'' of
        None \<Rightarrow> c
      | Some r \<Rightarrow> c\<lparr>children := children c @ [r]\<rparr>)"

text \<open>
  Running the statements from position \<open>k\<close>; \<open>failAt\<close> is the position of the statement
  that throws, if one does. What was done before the throw stays done.
\<close>

fun construct ::
  "build_step list \<Rightarrow> nat \<Rightarrow> nat option \<Rightarrow> nat \<Rightarrow> component \<Rightarrow> scene_error option \<times> component" where
  "construct [] k failAt i c = (None, c)"
| "construct (st # sts) k failAt i c =
     (if failAt = Some k then (Some (Thrown k), c)
      else construct sts (Suc k) failAt i (perform i st c))"

text \<open>The properties of the scene objects as the constructors leave them.\<close>

fun initialProps :: "scene_kind \<Rightarrow> real \<Rightarrow> string \<Rightarrow> real" where
  "initialProps SphereGrid s = sphereProps"
| "initialProps Dna s = dnaProps s"

fun initialProps_frontend :: "scene_kind \<Rightarrow> string \<Rightarrow> real" where
  "initialProps_frontend SphereGrid = sphereProps"
| "initialProps_frontend Dna = dnaProps_frontend"

text \<open>The async function returns: its promise resolves, to the cleanup closure or not.\<close>

definition settle :: "nat \<Rightarrow> bool \<Rightarrow> component \<Rightarrow> component" where
  "settle i withCleanup c = updRun i (\<lambda>r. r\<lparr>settled := True, returnsCleanup := withCleanup\<rparr>) c"

text \<open>
  The effect body up to the \<^verbatim>\<open>await\<close>: a new closure with \<^verbatim>\<open>mounted = true\<close>, whose
  cleanup React now holds.
\<close>

definition startRun :: "string \<Rightarrow> real \<Rightarrow> component \<Rightarrow> component" where
  "startRun q s c =
     c\<lparr>runs := (runs c)(runCount c :=
            idleRun\<lparr>vars := newVars s, scrollProgressProp := s, qualityProp := q\<rparr>),
       runCount := Suc (runCount c), current := Some (runCount c)\<rparr>"

text \<open>
  The dependencies of the effect: \<^verbatim>\<open>[quality, qualitySettings, scrollProgress]\<close> for the
  sphere (\<^verbatim>\<open>qualitySettings\<close> is memoised on \<^verbatim>\<open>quality\<close>), \<^verbatim>\<open>[scrollProgress]\<close> for the
  helix.
\<close>

fun depsChanged :: "scene_kind \<Rightarrow> string \<Rightarrow> real \<Rightarrow> effect_run \<Rightarrow> bool" where
  "depsChanged SphereGrid q s r = (q \<noteq> qualityProp r \<or> s \<noteq> scrollProgressProp r)"
| "depsChanged Dna q s r = (s \<noteq> scrollProgressProp r)"

text \<open>
  What React and the browser do to a component: mount it with its props (quality and
  scroll progress), update its props, unmount it, settle the import a run is awaiting
  (with the statement that throws, if any, and the time), and deliver the frame a run
  has requested (with its time stamp). Window resizes are left out: the resize handler
  writes only the camera's aspect and the renderer's size, which the state does not
  hold.
\<close>

datatype event =
    Mount string real
  | Update string real
  | Unmount
  | ImportSettles nat import_result "nat option" real
  | Frame nat real

text \<open>The objects bound to the given constants, in the order of the names.\<close>

definition disposeNames :: "string list \<Rightarrow> (string \<times> nat) list \<Rightarrow> nat list" where
  "disposeNames names tr = List.map_filter (map_of tr) names"

text \<open>
  \<^verbatim>\<open>if (container.contains(renderer.domElement)) container.removeChild(renderer.domElement)\<close>
\<close>

definition removeCanvas :: "(string \<times> nat) list \<Rightarrow> component \<Rightarrow> component" where
  "removeCanvas tr c =
     (case map_of tr ''renderer'' of
        None \<Rightarrow> c
      | Some r \<Rightarrow> if r \<in> set (children c) then c\<lparr>children := remove1 r (children c)\<rparr> else c)"

subsection \<open>src/App.js\<close>

text \<open>A call of \<^verbatim>\<open>animate\<close> of run \<open>i\<close>, on the objects of its own closure.\<close>

definition animateRun :: "scene_kind \<Rightarrow> nat \<Rightarrow> real \<Rightarrow> component \<Rightarrow> component" where
  "animateRun kind i currentTime c =
     (let r = runs c i;
          (v, sc) = (case kind of
                       SphereGrid \<Rightarrow> sphereAnimate (scrollProgressProp r) currentTime (vars r) (objects r)
                     | Dna \<Rightarrow> dnaAnimate (scrollProgressProp r) currentTime (vars r) (objects r))
      in updRun i (\<lambda>r. r\<lparr>vars := v, objects := sc\<rparr>) c)"

text \<open>
  The \<^verbatim>\<open>try\<close> block of \<^verbatim>\<open>loadScene\<close> (\<^verbatim>\<open>loadDnaScene\<close>) from the point where the
  \<^verbatim>\<open>await import('three')\<close> settles: the liveness guards, the construction, the resize
  listener, the first call of \<^verbatim>\<open>animate\<close>, \<^verbatim>\<open>setIsLoaded(true)\<close>, and the return of the
  cleanup closure. The first component of the result is the error thrown, if any.
\<close>

definition tryLoadScene ::
  "scene_kind \<Rightarrow> nat \<Rightarrow> import_result \<Rightarrow> nat option \<Rightarrow> component \<Rightarrow> scene_error option \<times> component" where
  "tryLoadScene kind i imported failAt c =
     (case imported of
        ImportRejects \<Rightarrow> (Some ImportFailed, c)
      | Loaded \<Rightarrow>
          if \<not> mounted (vars (runs c i)) then (None, settle i False c)
          else if \<not> mountRef c then (None, settle i False c)
          else
            (case construct (steps kind) 0 failAt i c of
               (Some error, c') \<Rightarrow> (Some error, c')
             | (None, c1) \<Rightarrow>
                 let c2 = updRun i (\<lambda>r. r\<lparr>objects :=
                              \<lparr>props = initialProps kind (scrollProgressProp r), renderCalls = 0\<rparr>\<rparr>) c1;
                     c3 = c2\<lparr>resizeListeners := resizeListeners c2 @ [i]\<rparr>;
                     c4 = animateRun kind i 0 c3;
                     c5 = c4\<lparr>isLoaded := True\<rparr>
                 in (None, settle i True c5)))"

text \<open>
  \<^verbatim>\<open>loadScene\<close> with its \<^verbatim>\<open>catch\<close> block. The first component of the result is the reason
  the promise of the async function rejects with, if it rejects.
\<close>

definition loadScene ::
  "scene_kind \<Rightarrow> nat \<Rightarrow> import_result \<Rightarrow> nat option \<Rightarrow> component \<Rightarrow> scene_error option \<times> component" where
  "loadScene kind i imported failAt c =
     (case tryLoadScene kind i imported failAt c of
        (None, c') \<Rightarrow> (None, c')
      | (Some error, c') \<Rightarrow>
          (None, settle i False (c'\<lparr>console := console c' @ [error], isLoaded := True\<rparr>)))"

text \<open>
  The closure \<^verbatim>\<open>loadScene\<close> returns (lines 187 to 201 and 349 to 361). The promise that
  carries it is dropped by the effect, so the component never calls it.
\<close>

fun disposed_root :: "scene_kind \<Rightarrow> string list" where
  "disposed_root SphereGrid =
     [''geometry'', ''material'', ''edgesGeometry'', ''edgesMaterial'', ''particlesGeometry'',
      ''particlesMaterial'', ''renderer'']"
| "disposed_root Dna =
     [''geo1'', ''geo2'', ''mat1'', ''mat2'', ''particlesGeometry'', ''particlesMaterial'',
      ''renderer'']"

definition returnedCleanup :: "scene_kind \<Rightarrow> nat \<Rightarrow> component \<Rightarrow> component" where
  "returnedCleanup kind i c =
     (let c1 = updVars i (\<lambda>v. v\<lparr>mounted := False\<rparr>) c;
          c2 = c1\<lparr>resizeListeners := removeAll i (resizeListeners c1)\<rparr>;
          c3 = updVars i (\<lambda>v. v\<lparr>frameRequested := False\<rparr>) c2;
          c4 = c3\<lparr>disposals := disposals c3 @ disposeNames (disposed_root kind) (tracked (runs c3 i))\<rparr>
      in removeCanvas (tracked (runs c4 i)) c4)"

text \<open>The cleanup the effect returns to React: \<^verbatim>\<open>() => { mounted = false; }\<close>.\<close>

definition effectCleanup :: "nat \<Rightarrow> component \<Rightarrow> component" where
  "effectCleanup i c = updVars i (\<lambda>v. v\<lparr>mounted := False\<rparr>) c"

text \<open>
  The component of src/App.js under React and the browser: mounting runs the effect;
  an update with changed dependencies runs the cleanup of the last run and then the
  effect again; unmounting runs the cleanup and clears the ref; the import of a pending
  run settles; the browser delivers a requested frame.
\<close>

fun root_step :: "scene_kind \<Rightarrow> component \<Rightarrow> event \<Rightarrow> component" where
  "root_step kind c (Mount q s) =
     (if current c \<noteq> None then c else startRun q s (c\<lparr>mountRef := True\<rparr>))"
| "root_step kind c (Update q s) =
     (case current c of
        None \<Rightarrow> c
      | Some i \<Rightarrow> if depsChanged kind q s (runs c i) then startRun q s (effectCleanup i c) else c)"
| "root_step kind c Unmount =
     (case current c of
        None \<Rightarrow> c
      | Some i \<Rightarrow> (effectCleanup i c)\<lparr>mountRef := False, current := None\<rparr>)"
| "root_step kind c (ImportSettles i imported failAt now) =
     (if i < runCount c \<and> \<not> settled (runs c i) then snd (loadScene kind i imported failAt c) else c)"
| "root_step kind c (Frame i t) =
     (if i < runCount c \<and> frameRequested (vars (runs c i))
      then animateRun kind i t (updVars i (\<lambda>v. v\<lparr>frameRequested := False\<rparr>) c)
      else c)"

definition root_run :: "scene_kind \<Rightarrow> event list \<Rightarrow> component" where
  "root_run kind evs = foldl (root_step kind) unmounted evs"

subsection \<open>frontend/src/App.js\<close>

text \<open>
  A call of \<^verbatim>\<open>animate\<close> of run \<open>i\<close>: the closure variables are its own, the objects are
  those \<^verbatim>\<open>sceneDataRef.current\<close> refers to.
\<close>

definition animateRun_frontend :: "scene_kind \<Rightarrow> nat \<Rightarrow> real \<Rightarrow> component \<Rightarrow> component" where
  "animateRun_frontend kind i currentTime c =
     (let r = runs c i;
          sceneData = (case sceneDataRef c of None \<Rightarrow> None | Some j \<Rightarrow> Some (objects (runs c j)));
          (v, sd) = (case kind of
                       SphereGrid \<Rightarrow> sphereAnimate_frontend (scrollProgressProp r) currentTime (vars r) sceneData
                     | Dna \<Rightarrow> dnaAnimate_frontend (scrollProgressProp r) currentTime (vars r) sceneData);
          c1 = updVars i (\<lambda>old. v) c
      in case (sceneDataRef c, sd) of
           (Some j, Some sc) \<Rightarrow> updRun j (\<lambda>r. r\<lparr>objects := sc\<rparr>) c1
         | _ \<Rightarrow> c1)"

text \<open>
  The effect body up to the \<^verbatim>\<open>await\<close>; \<^verbatim>\<open>initScene\<close> returns at once, before its
  \<^verbatim>\<open>try\<close> block, when the ref is not set.
\<close>

definition startRun_frontend :: "string \<Rightarrow> real \<Rightarrow> component \<Rightarrow> component" where
  "startRun_frontend q s c =
     (let c1 = startRun q s c
      in if \<not> mountRef c1 then settle (runCount c) False c1 else c1)"

text \<open>
  The \<^verbatim>\<open>try\<close> block of \<^verbatim>\<open>initScene\<close> from the point where the import settles; \<open>now\<close> is
  the value of \<^verbatim>\<open>performance.now()\<close> (read by the sphere only).
\<close>

definition tryInitScene ::
  "scene_kind \<Rightarrow> nat \<Rightarrow> import_result \<Rightarrow> nat option \<Rightarrow> real \<Rightarrow> component \<Rightarrow> scene_error option \<times> component" where
  "tryInitScene kind i imported failAt now c =
     (case imported of
        ImportRejects \<Rightarrow> (Some ImportFailed, c)
      | Loaded \<Rightarrow>
          if \<not> mounted (vars (runs c i)) \<or> \<not> mountRef c then (None, settle i False c)
          else
            (case construct (steps kind) 0 failAt i c of
               (Some error, c') \<Rightarrow> (Some error, c')
             | (None, c1) \<Rightarrow>
                 let c2 = updRun i (\<lambda>r. r\<lparr>objects :=
                              \<lparr>props = initialProps_frontend kind, renderCalls = 0\<rparr>\<rparr>) c1;
                     c3 = c2\<lparr>sceneDataRef := Some i\<rparr>;
                     c4 = (case kind of
                             SphereGrid \<Rightarrow> updVars i (\<lambda>v. v\<lparr>time := 0, lastTime := now\<rparr>) c3
                           | Dna \<Rightarrow> updVars i (\<lambda>v. v\<lparr>time := 0,
                                        lastScrollProgress := scrollProgressProp (runs c3 i)\<rparr>) c3);
                     c5 = c4\<lparr>resizeListeners := resizeListeners c4 @ [i]\<rparr>;
                     c6 = updVars i (\<lambda>v. v\<lparr>frameRequested := True\<rparr>) c5;
                     c7 = c6\<lparr>isLoaded := True\<rparr>
                 in (None, settle i True c7)))"

definition initScene ::
  "scene_kind \<Rightarrow> nat \<Rightarrow> import_result \<Rightarrow> nat option \<Rightarrow> real \<Rightarrow> component \<Rightarrow> scene_error option \<times> component" where
  "initScene kind i imported failAt now c =
     (case tryInitScene kind i imported failAt now c of
        (None, c') \<Rightarrow> (None, c')
      | (Some error, c') \<Rightarrow>
          (None, settle i False (c'\<lparr>console := console c' @ [error], isLoaded := True\<rparr>)))"

text \<open>
  The closure \<^verbatim>\<open>initScene\<close> returns (lines 256 to 295 and 558 to 604): it disposes what
  \<^verbatim>\<open>sceneDataRef.current\<close> refers to, if anything, and clears the ref.
\<close>

fun disposed_frontend :: "scene_kind \<Rightarrow> string list" where
  "disposed_frontend SphereGrid =
     [''geometry'', ''edgesGeometry'', ''particlesGeometry'', ''material'', ''edgesMaterial'',
      ''particlesMaterial'']"
| "disposed_frontend Dna =
     [''geo1'', ''geo2'', ''particlesGeometry'', ''mat1'', ''mat2'', ''particlesMaterial'']"

text \<open>\<^verbatim>\<open>rungs?.forEach(rung => { rung.geometry?.dispose(); rung.material?.dispose(); })\<close>\<close>

fun rungDisposals :: "scene_kind \<Rightarrow> (string \<times> nat) list \<Rightarrow> nat list" where
  "rungDisposals SphereGrid tr = []"
| "rungDisposals Dna tr = map snd (filter (\<lambda>e. fst e = ''rungGeo'' \<or> fst e = ''rungMat'') tr)"

definition cleanupFn :: "scene_kind \<Rightarrow> nat \<Rightarrow> component \<Rightarrow> component" where
  "cleanupFn kind i c =
     (let c1 = updVars i (\<lambda>v. v\<lparr>mounted := False\<rparr>) c;
          c2 = c1\<lparr>resizeListeners := removeAll i (resizeListeners c1)\<rparr>;
          c3 = updVars i (\<lambda>v. v\<lparr>frameRequested := False\<rparr>) c2
      in case sceneDataRef c3 of
           None \<Rightarrow> c3
         | Some j \<Rightarrow>
             let tr = tracked (runs c3 j);
                 c4 = c3\<lparr>disposals := disposals c3 @ disposeNames (disposed_frontend kind) tr
                                          @ rungDisposals kind tr @ disposeNames [''renderer''] tr\<rparr>;
                 c5 = removeCanvas tr c4
             in c5\<lparr>sceneDataRef := None\<rparr>)"

text \<open>
  The cleanup the effect returns to React: \<^verbatim>\<open>isMounted = false\<close>, and a \<^verbatim>\<open>then\<close> callback
  on the promise of \<^verbatim>\<open>initScene\<close> that calls the closure the promise resolves to, if it
  resolves to one.
\<close>

definition effectCleanup_frontend :: "nat \<Rightarrow> component \<Rightarrow> component" where
  "effectCleanup_frontend i c =
     updRun i (\<lambda>r. r\<lparr>vars := (vars r)\<lparr>mounted := False\<rparr>, reactions := Suc (reactions r)\<rparr>) c"

text \<open>
  The \<^verbatim>\<open>then\<close> callbacks registered on the promise of run \<open>i\<close> run, as microtasks, once
  the promise has resolved: at the end of the task that registered them, or of the task
  that resolved the promise.
\<close>

definition runReactions :: "scene_kind \<Rightarrow> nat \<Rightarrow> component \<Rightarrow> component" where
  "runReactions kind i c =
     (if settled (runs c i)
      then
        let n = reactions (runs c i);
            c1 = updRun i (\<lambda>r. r\<lparr>reactions := 0\<rparr>) c
        in if returnsCleanup (runs c i) then (cleanupFn kind i ^^ n) c1 else c1
      else c)"

fun frontend_step :: "scene_kind \<Rightarrow> component \<Rightarrow> event \<Rightarrow> component" where
  "frontend_step kind c (Mount q s) =
     (if current c \<noteq> None then c else startRun_frontend q s (c\<lparr>mountRef := True\<rparr>))"
| "frontend_step kind c (Update q s) =
     (case current c of
        None \<Rightarrow> c
      | Some i \<Rightarrow>
          if depsChanged kind q s (runs c i)
          then runReactions kind i (startRun_frontend q s (effectCleanup_frontend i c))
          else c)"
| "frontend_step kind c Unmount =
     (case current c of
        None \<Rightarrow> c
      | Some i \<Rightarrow> runReactions kind i ((effectCleanup_frontend i c)\<lparr>mountRef := False, current := None\<rparr>))"
| "frontend_step kind c (ImportSettles i imported failAt now) =
     (if i < runCount c \<and> \<not> settled (runs c i)
      then runReactions kind i (snd (initScene kind i imported failAt now c))
      else c)"
| "frontend_step kind c (Frame i t) =
     (if i < runCount c \<and> frameRequested (vars (runs c i))
      then animateRun_frontend kind i t (updVars i (\<lambda>v. v\<lparr>frameRequested := False\<rparr>) c)
      else c)"

definition frontend_run :: "scene_kind \<Rightarrow> event list \<Rightarrow> component" where
  "frontend_run kind evs = foldl (frontend_step kind) unmounted evs"

subsection \<open>Runs that were cleaned up while their import was pending\<close>



subsection \<open>Example executions\<close>

text \<open>
  Mount at quality \<open>high\<close> and scroll progress 0; the import settles and the scene is
  built; the scroll progress changes to 1/2, so the effect runs again; the second import
  settles and the second scene is built.
\<close>

definition rebuildTrace :: "event list" where
  "rebuildTrace =
     [Mount ''high'' 0, ImportSettles 0 Loaded None 0,
      Update ''high'' (1/2), ImportSettles 1 Loaded None 0]"

text \<open>
  Mount; the scene is built; a frame is processed at time 20; the component unmounts;
  the frame requested before the unmount is delivered at time 40.
\<close>

definition unmountTrace :: "event list" where
  "unmountTrace =
     [Mount ''high'' 0, ImportSettles 0 Loaded None 0, Frame 0 20, Unmount, Frame 0 40]"

section \<open>Properties of the quality selector\<close>

lemma initialQuality_spec: "initialQuality sig = spec_quality sig"
  by (cases "hardwareConcurrency sig") (auto simp: initialQuality_def spec_quality_def js_lt_def)

lemma timeoutCallback_spec: "quality (timeoutCallback sig m) = spec_quality sig"
  by (cases "hardwareConcurrency sig") (auto simp: timeoutCallback_def spec_quality_def js_lt_def)

text \<open>
  C2. For every combination of device signals the hook publishes \<open>low\<close> when the width
  is below 768, or the processor count is below 4, or the network type is 2g or slow-2g;
  \<open>medium\<close> when none of these holds and the width is in [768, 1024); \<open>high\<close> otherwise:
  on initialisation, and after each firing of the debounce timer, while a resize
  that only arms the timer leaves the published tier as it was.
\<close>

theorem C2_quality_selector:
  "quality (monitor_mount sig) = spec_quality sig
   \<and> (timerPending m \<longrightarrow> quality (monitor_step m (TimerFires sig)) = spec_quality sig)
   \<and> quality (monitor_step m Resize) = quality m"
  by (simp add: monitor_mount_def initialQuality_spec timeoutCallback_spec)

theorem C2_quality_selector_witness:
  "timerPending (monitor_step (monitor_mount \<lparr>innerWidth = 500, hardwareConcurrency = Some 8, effectiveType = Some ''4g''\<rparr>) Resize)
   \<and> quality (monitor_mount \<lparr>innerWidth = 500, hardwareConcurrency = Some 8, effectiveType = Some ''4g''\<rparr>) = ''low''
   \<and> quality (monitor_step (monitor_step (monitor_mount \<lparr>innerWidth = 500, hardwareConcurrency = Some 8, effectiveType = Some ''4g''\<rparr>) Resize)
        (TimerFires \<lparr>innerWidth = 900, hardwareConcurrency = None, effectiveType = None\<rparr>)) = ''medium''"
  using C2_quality_selector
    [of "\<lparr>innerWidth = 900, hardwareConcurrency = None, effectiveType = None\<rparr>"
        "monitor_step (monitor_mount \<lparr>innerWidth = 500, hardwareConcurrency = Some 8, effectiveType = Some ''4g''\<rparr>) Resize"]
  by (simp add: monitor_mount_def initialQuality_def js_lt_def spec_quality_def)

section \<open>Properties of the scroll progress tracker\<close>







section \<open>Properties of the waitlist endpoint\<close>

subsection \<open>The matcher decides the language of the pattern\<close>










subsection \<open>The validator and the handler\<close>










section \<open>Properties of the frame callbacks\<close>

lemma sphereFrame_skip:
  "currentTime - lastTime v < 16 \<Longrightarrow>
   sphereFrame s currentTime v sc = (v\<lparr>frameRequested := True\<rparr>, sc)"
  by (simp add: sphereFrame_def)

lemma sphereFrame_opacity:
  assumes "\<not> currentTime - lastTime v < 16"
  shows "props (snd (sphereFrame s currentTime v sc)) ''material.opacity'' = max 0.2 (1 - s * 0.8)"
    and "props (snd (sphereFrame s currentTime v sc)) ''edgesMaterial.opacity'' = max 0.2 (1 - s * 0.8) * 0.6"
    and "props (snd (sphereFrame s currentTime v sc)) ''particlesMaterial.opacity'' = max 0.2 (1 - s * 0.8) * 0.45"
  using assms by (simp_all add: sphereFrame_def Let_def)

lemma sphereFrame_processed:
  assumes "\<not> currentTime - lastTime v < 16"
  shows "renderCalls (snd (sphereFrame s currentTime v sc)) = Suc (renderCalls sc)"
    and "lastTime (fst (sphereFrame s currentTime v sc)) = currentTime"
    and "time (fst (sphereFrame s currentTime v sc)) = time v + 0.009"
  using assms by (simp_all add: sphereFrame_def Let_def)

lemma sphere_opacity_mono: "s1 \<le> s2 \<Longrightarrow> max 0.2 (1 - s2 * 0.8) \<le> max (0.2::real) (1 - s1 * 0.8)"
  by (simp add: max_def)

lemma dnaAnimate_opacity:
  assumes "mounted v"
  shows "props (snd (dnaAnimate s t v sc)) ''mat1.opacity'' = 0.65 + 0.31 * s"
    and "props (snd (dnaAnimate s t v sc)) ''mat2.opacity'' = 0.62 + 0.33 * s"
    and "renderCalls (snd (dnaAnimate s t v sc)) = Suc (renderCalls sc)"
    and "time (fst (dnaAnimate s t v sc)) = time v + 0.011"
  using assms by (simp_all add: dnaAnimate_def Let_def)

lemma dnaFrame_frontend_same:
  assumes "lastScrollProgress v = s"
  shows "props (snd (dnaFrame_frontend s v sc)) ''mat1.opacity'' = props sc ''mat1.opacity''"
    and "props (snd (dnaFrame_frontend s v sc)) ''mat2.opacity'' = props sc ''mat2.opacity''"
    and "props (snd (dnaFrame_frontend s v sc)) ''particlesMaterial.opacity'' = props sc ''particlesMaterial.opacity''"
    and "lastScrollProgress (fst (dnaFrame_frontend s v sc)) = s"
    and "renderCalls (snd (dnaFrame_frontend s v sc)) = Suc (renderCalls sc)"
    and "time (fst (dnaFrame_frontend s v sc)) = time v + 0.011"
  using assms by (simp_all add: dnaFrame_frontend_def Let_def)

lemma sphereAnimate_frontend_eq:
  "sphereAnimate_frontend s t v (Some sc)
     = (fst (sphereAnimate s t v sc), Some (snd (sphereAnimate s t v sc)))"
  by (simp add: sphereAnimate_frontend_def sphereAnimate_def split_beta)

lemma dnaAnimate_frontend_eq:
  "mounted v \<Longrightarrow>
   dnaAnimate_frontend s t v (Some sc)
     = (fst (dnaFrame_frontend s v sc), Some (snd (dnaFrame_frontend s v sc)))"
  by (simp add: dnaAnimate_frontend_def split_beta)

text \<open>
  C4, as the code has it. In a processed frame of the sphere scene (either file) the
  material opacity is \<open>max 0.2 (1 - 0.8 s)\<close>, which does not increase with the scroll
  progress \<open>s\<close>, and the edge and particle opacities are that value times 0.6 and 0.45.
  The helix differs: in src/App.js a frame sets the strand opacities to
  \<open>0.65 + 0.31 s\<close> and \<open>0.62 + 0.33 s\<close>, which do not decrease with \<open>s\<close>; in
  frontend/src/App.js a frame leaves the helix opacities as they are as long as
  \<^verbatim>\<open>lastScrollProgress\<close> is the progress the effect captured.
\<close>

theorem C4_opacity_by_scroll:
  assumes "s1 \<le> s2" and "mounted v" and "16 \<le> t - lastTime v"
  shows "props (snd (sphereAnimate s2 t v sc)) ''material.opacity''
           \<le> props (snd (sphereAnimate s1 t v sc)) ''material.opacity''
       \<and> props (snd (sphereAnimate s1 t v sc)) ''material.opacity'' = max 0.2 (1 - s1 * 0.8)
       \<and> props (snd (sphereAnimate s1 t v sc)) ''edgesMaterial.opacity''
           = props (snd (sphereAnimate s1 t v sc)) ''material.opacity'' * 0.6
       \<and> props (snd (sphereAnimate s1 t v sc)) ''particlesMaterial.opacity''
           = props (snd (sphereAnimate s1 t v sc)) ''material.opacity'' * 0.45
       \<and> sphereAnimate_frontend s1 t v (Some sc)
           = (fst (sphereAnimate s1 t v sc), Some (snd (sphereAnimate s1 t v sc)))
       \<and> props (snd (dnaAnimate s1 t v sc)) ''mat1.opacity''
           \<le> props (snd (dnaAnimate s2 t v sc)) ''mat1.opacity''
       \<and> props (snd (dnaAnimate s1 t v sc)) ''mat2.opacity''
           \<le> props (snd (dnaAnimate s2 t v sc)) ''mat2.opacity''
       \<and> props (snd (dnaAnimate s1 t v sc)) ''mat1.opacity'' = 0.65 + 0.31 * s1
       \<and> props (snd (dnaAnimate s1 t v sc)) ''mat2.opacity'' = 0.62 + 0.33 * s1
       \<and> (lastScrollProgress v = s1 \<longrightarrow>
            dnaAnimate_frontend s1 t v (Some sc)
              = (fst (dnaFrame_frontend s1 v sc), Some (snd (dnaFrame_frontend s1 v sc)))
            \<and> props (snd (dnaFrame_frontend s1 v sc)) ''mat1.opacity'' = props sc ''mat1.opacity''
            \<and> props (snd (dnaFrame_frontend s1 v sc)) ''mat2.opacity'' = props sc ''mat2.opacity''
            \<and> props (snd (dnaFrame_frontend s1 v sc)) ''particlesMaterial.opacity''
                = props sc ''particlesMaterial.opacity'')"
proof -
  from assms have late: "\<not> t - lastTime v < 16" by simp
  have sphere: "props (snd (sphereAnimate s t v sc)) ''material.opacity'' = max 0.2 (1 - s * 0.8)"
      "props (snd (sphereAnimate s t v sc)) ''edgesMaterial.opacity'' = max 0.2 (1 - s * 0.8) * 0.6"
      "props (snd (sphereAnimate s t v sc)) ''particlesMaterial.opacity'' = max 0.2 (1 - s * 0.8) * 0.45"
    for s
    using assms(2) sphereFrame_opacity [OF late, of s sc] by (simp_all add: sphereAnimate_def)
  have helix: "props (snd (dnaAnimate s t v sc)) ''mat1.opacity'' = 0.65 + 0.31 * s"
      "props (snd (dnaAnimate s t v sc)) ''mat2.opacity'' = 0.62 + 0.33 * s" for s
    using dnaAnimate_opacity [OF assms(2)] by simp_all
  have mono: "max 0.2 (1 - s2 * 0.8) \<le> max (0.2::real) (1 - s1 * 0.8)"
    using assms(1) by (rule sphere_opacity_mono)
  have up: "0.65 + 0.31 * s1 \<le> 0.65 + 0.31 * s2" "0.62 + 0.33 * s1 \<le> 0.62 + 0.33 * s2"
    using assms(1) by simp_all
  show ?thesis
    using mono up assms(2)
    by (simp add: sphere helix sphereAnimate_frontend_eq dnaAnimate_frontend_eq dnaFrame_frontend_same)
qed

theorem C4_opacity_by_scroll_witness:
  "(1/4::real) \<le> 1/2 \<and> mounted (newVars (1/4)) \<and> (16::real) \<le> 20 - lastTime (newVars (1/4))
   \<and> props (snd (sphereAnimate (1/2) 20 (newVars (1/4)) sphereScene)) ''material.opacity'' = 3/5
   \<and> props (snd (sphereAnimate (1/4) 20 (newVars (1/4)) sphereScene)) ''material.opacity'' = 4/5
   \<and> props (snd (sphereAnimate (1/4) 20 (newVars (1/4)) sphereScene)) ''edgesMaterial.opacity'' = 12/25"
proof -
  have h: "(1/4::real) \<le> 1/2" "mounted (newVars (1/4))" "(16::real) \<le> 20 - lastTime (newVars (1/4))"
    by (simp_all add: newVars_def)
  have a: "props (snd (sphereAnimate (1/2) 20 (newVars (1/4)) sphereScene)) ''material.opacity'' = 3/5"
    by (simp add: sphereAnimate_def sphereFrame_def newVars_def sphereScene_def Let_def)
  from C4_opacity_by_scroll [OF h, of sphereScene] h a show ?thesis by simp
qed

text \<open>
  The helix of src/App.js, mounted, processes one frame at scroll progress 0 and one at
  scroll progress 1: the strand opacity is 0.65 at progress 0 and 0.96 at progress 1,
  so it is not non-increasing in the scroll progress.
\<close>

theorem C4_helix_opacity_increases:
  "\<not> (props (snd (dnaAnimate 1 16 (newVars 1) (helixScene 1))) ''mat1.opacity''
        \<le> props (snd (dnaAnimate 0 16 (newVars 0) (helixScene 0))) ''mat1.opacity'')"
  by (simp add: dnaAnimate_def newVars_def helixScene_def Let_def)

text \<open>
  C8, as the code has it. In the sphere's loop (either file) a frame less than 16 ms
  after the last processed one only requests the next frame: \<open>time\<close>, \<open>lastTime\<close>, the
  rotations, opacities, scale and the render count stay as they were; a frame that
  renders is at least 16 ms after the last processed one and becomes the new
  \<open>lastTime\<close>. The helix loop has no throttle: while mounted, every frame it is given
  advances \<open>time\<close> and renders, in src/App.js and in frontend/src/App.js.
\<close>

theorem C8_frame_throttle:
  assumes "mounted v"
  shows "(t - lastTime v < 16 \<longrightarrow>
            sphereAnimate s t v sc = (v\<lparr>frameRequested := True\<rparr>, sc)
            \<and> sphereAnimate_frontend s t v (Some sc) = (v\<lparr>frameRequested := True\<rparr>, Some sc))
       \<and> (renderCalls (snd (sphereAnimate s t v sc)) \<noteq> renderCalls sc \<longrightarrow>
            16 \<le> t - lastTime v \<and> lastTime (fst (sphereAnimate s t v sc)) = t)
       \<and> renderCalls (snd (dnaAnimate s t v sc)) = Suc (renderCalls sc)
       \<and> time (fst (dnaAnimate s t v sc)) = time v + 0.011
       \<and> dnaAnimate_frontend s t v (Some sc)
           = (fst (dnaFrame_frontend s v sc), Some (snd (dnaFrame_frontend s v sc)))
       \<and> renderCalls (snd (dnaFrame_frontend s v sc)) = Suc (renderCalls sc)
       \<and> time (fst (dnaFrame_frontend s v sc)) = time v + 0.011"
proof -
  have skip: "t - lastTime v < 16 \<Longrightarrow> sphereAnimate s t v sc = (v\<lparr>frameRequested := True\<rparr>, sc)"
    using assms by (simp add: sphereAnimate_def sphereFrame_skip)
  have rendered: "renderCalls (snd (sphereAnimate s t v sc)) \<noteq> renderCalls sc \<Longrightarrow>
      16 \<le> t - lastTime v \<and> lastTime (fst (sphereAnimate s t v sc)) = t"
  proof (cases "t - lastTime v < 16")
    case True
    assume "renderCalls (snd (sphereAnimate s t v sc)) \<noteq> renderCalls sc"
    with skip [OF True] show ?thesis by simp
  next
    case False
    with assms sphereFrame_processed(2) [OF False, of s sc] show ?thesis
      by (simp add: sphereAnimate_def)
  qed
  have front: "renderCalls (snd (dnaFrame_frontend s v sc)) = Suc (renderCalls sc)"
      "time (fst (dnaFrame_frontend s v sc)) = time v + 0.011"
    by (simp_all add: dnaFrame_frontend_def Let_def)
  show ?thesis
    using skip rendered dnaAnimate_opacity(3,4) [OF assms, of s t sc] front
      dnaAnimate_frontend_eq [OF assms, of s t sc]
    by (simp add: sphereAnimate_frontend_eq)
qed

theorem C8_frame_throttle_witness:
  "mounted ((newVars 0)\<lparr>lastTime := 100\<rparr>)
   \<and> (101::real) - lastTime ((newVars 0)\<lparr>lastTime := 100\<rparr>) < 16
   \<and> renderCalls (snd (sphereAnimate 0 101 ((newVars 0)\<lparr>lastTime := 100\<rparr>) sphereScene)) = 0
   \<and> renderCalls (snd (dnaAnimate 0 101 ((newVars 0)\<lparr>lastTime := 100\<rparr>) (helixScene 0))) = 1"
proof -
  have h: "mounted ((newVars 0)\<lparr>lastTime := 100\<rparr>)" by (simp add: newVars_def)
  have d: "(101::real) - lastTime ((newVars 0)\<lparr>lastTime := 100\<rparr>) < 16" by simp
  from C8_frame_throttle [OF h, of 101 0 sphereScene] h d show ?thesis
    using C8_frame_throttle [OF h, of 101 0 "helixScene 0"]
    by (simp add: sphereScene_def helixScene_def)
qed

text \<open>
  The helix of src/App.js processes a frame at time 100 and is given the next one at
  time 101, 1 ms later: that frame is not skipped, it renders again.
\<close>

theorem C8_helix_frame_not_skipped:
  "renderCalls (snd (dnaAnimate 0 100 (newVars 0) (helixScene 0))) = 1
   \<and> renderCalls (snd (dnaAnimate 0 101 (fst (dnaAnimate 0 100 (newVars 0) (helixScene 0)))
                          (snd (dnaAnimate 0 100 (newVars 0) (helixScene 0))))) = 2"
  by (simp add: dnaAnimate_def newVars_def helixScene_def Let_def)

section \<open>Properties of construction and teardown\<close>

subsection \<open>What a step does to the other runs\<close>

































subsection \<open>A run cleaned up while pending creates nothing\<close>





subsection \<open>Errors thrown by the construction are caught\<close>

lemma perform_console: "console (perform j st c) = console c"
  by (cases st) (simp_all add: updRun_def split: option.splits)

lemma construct_console: "console (snd (construct sts k f j c)) = console c"
  by (induction sts arbitrary: k c) (simp_all add: perform_console)

lemma tryLoadScene_console:
  "tryLoadScene kind i imported failAt c = (Some error, c') \<Longrightarrow> console c' = console c"
  using construct_console [of "steps kind" 0 failAt i c]
  by (auto simp: tryLoadScene_def Let_def split: import_result.splits if_splits prod.splits option.splits)

lemma tryInitScene_console:
  "tryInitScene kind i imported failAt now c = (Some error, c') \<Longrightarrow> console c' = console c"
  using construct_console [of "steps kind" 0 failAt i c]
  by (auto simp: tryInitScene_def Let_def split: import_result.splits if_splits prod.splits option.splits)

text \<open>
  C7. The promise of \<^verbatim>\<open>loadScene\<close> (src/App.js) and of \<^verbatim>\<open>initScene\<close>
  (frontend/src/App.js) never rejects, so no error reaches the page; a rejected import
  is an error thrown in the \<^verbatim>\<open>try\<close> block; and whenever the \<^verbatim>\<open>try\<close> block throws an error,
  the error is appended to the console, \<^verbatim>\<open>isLoaded\<close> is set, so the loading placeholder
  is not rendered and the gradient of the container shows, and the promise resolves.
\<close>

theorem C7_construction_errors_caught:
  "fst (loadScene kind i imported failAt c) = None
   \<and> fst (initScene kind i imported failAt now c) = None
   \<and> tryLoadScene kind i ImportRejects failAt c = (Some ImportFailed, c)
   \<and> tryInitScene kind i ImportRejects failAt now c = (Some ImportFailed, c)
   \<and> (tryLoadScene kind i imported failAt c = (Some error, c') \<longrightarrow>
        isLoaded (snd (loadScene kind i imported failAt c))
        \<and> \<not> placeholderShown (snd (loadScene kind i imported failAt c))
        \<and> console (snd (loadScene kind i imported failAt c)) = console c @ [error]
        \<and> settled (runs (snd (loadScene kind i imported failAt c)) i))
   \<and> (tryInitScene kind i imported failAt now c = (Some error, c') \<longrightarrow>
        isLoaded (snd (initScene kind i imported failAt now c))
        \<and> \<not> placeholderShown (snd (initScene kind i imported failAt now c))
        \<and> console (snd (initScene kind i imported failAt now c)) = console c @ [error]
        \<and> settled (runs (snd (initScene kind i imported failAt now c)) i))"
proof -
  have a: "fst (loadScene kind i imported failAt c) = None"
    by (simp add: loadScene_def split: prod.splits option.splits)
  have b: "fst (initScene kind i imported failAt now c) = None"
    by (simp add: initScene_def split: prod.splits option.splits)
  have r: "tryLoadScene kind i imported failAt c = (Some error, c') \<Longrightarrow>
        isLoaded (snd (loadScene kind i imported failAt c))
        \<and> \<not> placeholderShown (snd (loadScene kind i imported failAt c))
        \<and> console (snd (loadScene kind i imported failAt c)) = console c @ [error]
        \<and> settled (runs (snd (loadScene kind i imported failAt c)) i)"
    using tryLoadScene_console [of kind i imported failAt c error c']
    by (simp add: loadScene_def placeholderShown_def settle_def updRun_def)
  have f: "tryInitScene kind i imported failAt now c = (Some error, c') \<Longrightarrow>
        isLoaded (snd (initScene kind i imported failAt now c))
        \<and> \<not> placeholderShown (snd (initScene kind i imported failAt now c))
        \<and> console (snd (initScene kind i imported failAt now c)) = console c @ [error]
        \<and> settled (runs (snd (initScene kind i imported failAt now c)) i)"
    using tryInitScene_console [of kind i imported failAt now c error c']
    by (simp add: initScene_def placeholderShown_def settle_def updRun_def)
  show ?thesis using a b r f by (simp add: tryLoadScene_def tryInitScene_def)
qed

theorem C7_construction_errors_caught_witness:
  "tryLoadScene SphereGrid 0 Loaded (Some 2) (root_run SphereGrid [Mount ''high'' 0])
     = (Some (Thrown 2), root_run SphereGrid [Mount ''high'' 0])
   \<and> placeholderShown (root_run SphereGrid [Mount ''high'' 0])
   \<and> \<not> placeholderShown (root_run SphereGrid [Mount ''high'' 0, ImportSettles 0 Loaded (Some 2) 0])
   \<and> console (root_run SphereGrid [Mount ''high'' 0, ImportSettles 0 Loaded (Some 2) 0]) = [Thrown 2]"
proof -
  have t: "tryLoadScene SphereGrid 0 Loaded (Some 2) (root_run SphereGrid [Mount ''high'' 0])
     = (Some (Thrown 2), root_run SphereGrid [Mount ''high'' 0])"
    by (simp add: tryLoadScene_def root_run_def unmounted_def startRun_def idleRun_def newVars_def
          sphereSteps_def)
  have s: "root_run SphereGrid [Mount ''high'' 0, ImportSettles 0 Loaded (Some 2) 0]
        = snd (loadScene SphereGrid 0 Loaded (Some 2) (root_run SphereGrid [Mount ''high'' 0]))"
    by (simp add: root_run_def unmounted_def startRun_def idleRun_def)
  have p: "placeholderShown (root_run SphereGrid [Mount ''high'' 0])"
      "console (root_run SphereGrid [Mount ''high'' 0]) = []"
    by (simp_all add: placeholderShown_def root_run_def unmounted_def startRun_def)
  from C7_construction_errors_caught
         [of SphereGrid 0 Loaded "Some 2" "root_run SphereGrid [Mount ''high'' 0]" 0 "Thrown 2"
             "root_run SphereGrid [Mount ''high'' 0]"] t s p
  show ?thesis by simp
qed

subsection \<open>src/App.js never disposes\<close>

lemma perform_disposals: "disposals (perform j st c) = disposals c"
  by (cases st) (simp_all add: updRun_def split: option.splits)

lemma construct_disposals: "disposals (snd (construct sts k f j c)) = disposals c"
  by (induction sts arbitrary: k c) (simp_all add: perform_disposals)

lemma animateRun_disposals: "disposals (animateRun kind j t c) = disposals c"
  by (simp add: animateRun_def updRun_def Let_def split_beta)

lemma loadScene_disposals: "disposals (snd (loadScene kind j imported f c)) = disposals c"
  using construct_disposals [of "steps kind" 0 f j c]
  by (auto simp: loadScene_def tryLoadScene_def settle_def updRun_def Let_def animateRun_disposals
       split: import_result.splits prod.splits option.splits)

lemma root_step_disposals: "disposals (root_step kind c e) = disposals c"
  by (cases e)
     (simp_all add: startRun_def effectCleanup_def updVars_def updRun_def loadScene_disposals
        animateRun_disposals split: option.splits)

lemma root_steps_disposals: "disposals (foldl (root_step kind) c evs) = disposals c"
  by (induction evs arbitrary: c) (simp_all add: root_step_disposals)

lemmas root_eval = root_run_def unmounted_def startRun_def idleRun_def newVars_def loadScene_def
  tryLoadScene_def settle_def updRun_def updVars_def sphereSteps_def animateRun_def
  sphereAnimate_def sphereFrame_def effectCleanup_def sphereProps_def Let_def

lemmas frontend_eval = frontend_run_def unmounted_def startRun_def startRun_frontend_def idleRun_def
  newVars_def initScene_def tryInitScene_def settle_def updRun_def updVars_def sphereSteps_def
  animateRun_frontend_def sphereAnimate_frontend_def sphereFrame_def effectCleanup_frontend_def
  runReactions_def cleanupFn_def disposeNames_def removeCanvas_def List.map_filter_def
  sphereProps_def Let_def

text \<open>
  C1 on src/App.js. The sphere is mounted and built, the scroll progress changes and
  the sphere is built again: the canvas of the first renderer (object 0) is still under
  the mount container beside the second (object 7), nothing has been disposed, and the
  fourteen tracked objects of both bundles exist.
\<close>

theorem C1_rebuild_accumulates:
  "children (root_run SphereGrid rebuildTrace) = [0, 7]
   \<and> disposals (root_run SphereGrid rebuildTrace) = []
   \<and> map fst (created (root_run SphereGrid rebuildTrace)) = [0, 1, 2, 3, 4, 5, 6, 7, 8, 9, 10, 11, 12, 13]"
  by (simp add: rebuildTrace_def root_eval)

text \<open>
  The same execution on frontend/src/App.js: the first bundle is disposed, each object
  once, and only the second canvas is under the mount container.
\<close>

lemma frontend_rebuild_releases:
  "children (frontend_run SphereGrid rebuildTrace) = [7]
   \<and> disposals (frontend_run SphereGrid rebuildTrace) = [1, 3, 5, 2, 4, 6, 0]
   \<and> sceneDataRef (frontend_run SphereGrid rebuildTrace) = Some 1"
  by (simp add: rebuildTrace_def frontend_eval)

text \<open>
  The closure that \<^verbatim>\<open>loadScene\<close> returns would release the bundle, had the effect's
  cleanup called it.
\<close>

lemma returnedCleanup_would_release:
  "disposals (returnedCleanup SphereGrid 0
      (root_run SphereGrid [Mount ''high'' 0, ImportSettles 0 Loaded None 0])) = [1, 2, 3, 4, 5, 6, 0]
   \<and> children (returnedCleanup SphereGrid 0
      (root_run SphereGrid [Mount ''high'' 0, ImportSettles 0 Loaded None 0])) = []"
  by (simp add: root_eval returnedCleanup_def disposeNames_def removeCanvas_def List.map_filter_def)

text \<open>
  C5 on src/App.js. No execution of either scene ever calls \<^verbatim>\<open>dispose\<close>. In particular
  the sphere is mounted, built, renders a frame and is unmounted: the renderer, the
  three geometries and the three materials it created (objects 0 to 6) are released
  zero times and its canvas stays under the mount container; the frame delivered after
  the unmount does not render.
\<close>

theorem C5_unmount_releases_nothing:
  "disposals (root_run kind evs) = []
   \<and> children (root_run SphereGrid unmountTrace) = [0]
   \<and> map snd (tracked (runs (root_run SphereGrid unmountTrace) 0)) = [0, 1, 2, 3, 4, 5, 6]
   \<and> renderCalls (objects (runs (root_run SphereGrid unmountTrace) 0)) = 1"
proof -
  have "disposals (root_run kind evs) = []"
    by (simp add: root_run_def root_steps_disposals unmounted_def)
  moreover have "children (root_run SphereGrid unmountTrace) = [0]
      \<and> map snd (tracked (runs (root_run SphereGrid unmountTrace) 0)) = [0, 1, 2, 3, 4, 5, 6]
      \<and> renderCalls (objects (runs (root_run SphereGrid unmountTrace) 0)) = 1"
    by (simp add: unmountTrace_def root_eval)
  ultimately show ?thesis by simp
qed

text \<open>
  The same execution on frontend/src/App.js: the teardown disposes each of the seven
  objects once and removes the canvas.
\<close>

lemma frontend_unmount_releases:
  "disposals (frontend_run SphereGrid unmountTrace) = [1, 3, 5, 2, 4, 6, 0]
   \<and> children (frontend_run SphereGrid unmountTrace) = []
   \<and> renderCalls (objects (runs (frontend_run SphereGrid unmountTrace) 0)) = 1"
  by (simp add: unmountTrace_def frontend_eval)

text \<open>
  In frontend/src/App.js a second call of the closure disposes nothing more: the first
  call has cleared \<^verbatim>\<open>sceneDataRef\<close>.
\<close>

lemma cleanupFn_twice:
  "disposals (cleanupFn kind i (cleanupFn kind i c)) = disposals (cleanupFn kind i c)
   \<and> children (cleanupFn kind i (cleanupFn kind i c)) = children (cleanupFn kind i c)"
  by (simp add: cleanupFn_def updVars_def updRun_def Let_def removeCanvas_def split: option.splits)


end
